theory Spec2Isabelle
  imports
    Main
    "HOL-Library.Char_ord"
    "HOL-Library.List_Lexorder"
    "HOL-Library.Product_Lexorder"
    "HOL-Library.Multiset"
begin

section \<open>Time values\<close>

text \<open>
  A Python \<open>datetime\<close> is modelled as the integer number of microseconds since midnight of
  an epoch day, a \<open>date\<close> as the integer number of whole days since that day, and a
  \<open>timedelta\<close> as a number of microseconds. Python's datetime has no leap seconds, so
  every day has 86400 seconds and minute boundaries are multiples of 60 seconds. The
  integers are unbounded: the limits of Python's datetime range (years 1 to 9999) are not
  part of the model.
\<close>

type_synonym datetime = int
type_synonym date = int

definition timedelta :: "int \<Rightarrow> int \<Rightarrow> int" where
  \<comment> \<open>\<open>datetime.timedelta(days=d, seconds=s)\<close>\<close>
  "timedelta days seconds = days * 86400000000 + seconds * 1000000"

definition microsecond :: "datetime \<Rightarrow> int" where
  "microsecond t = t mod 1000000"

definition second :: "datetime \<Rightarrow> int" where
  "second t = (t div 1000000) mod 60"

definition replace_second_microsecond :: "datetime \<Rightarrow> datetime" where
  \<comment> \<open>\<open>t.replace(second=0, microsecond=0)\<close>: both fields are set to zero, the others kept\<close>
  "replace_second_microsecond t = t - second t * 1000000 - microsecond t"

definition date_of :: "datetime \<Rightarrow> date" where
  \<comment> \<open>\<open>t.date()\<close>\<close>
  "date_of t = t div 86400000000"

definition midnight :: "date \<Rightarrow> datetime" where
  \<comment> \<open>a \<open>date\<close> compared with a DateTime column is bound as that day at 00:00:00.000000\<close>
  "midnight d = d * 86400000000"

section \<open>Normalisation of the contents\<close>

text \<open>
  \<open>csv_contents.decode('utf-8', 'replace').encode('ascii', 'xmlcharrefreplace')\<close>.
  A Python 2 \<open>str\<close> is a byte string, which is what \<^typ>\<open>string\<close> is. The decoded
  text is a list of code points. The decoder follows CPython 2.7's UTF-8 decoder with the
  \<open>replace\<close> error handler (on a build whose unicode characters are code points): an
  ill-formed sequence gives one U+FFFD and decoding resumes after the bytes the decoder
  reported; three-byte sequences for surrogates are decoded like any other.
\<close>

definition is_continuation :: "nat \<Rightarrow> bool" where
  \<comment> \<open>\<open>(b & 0xC0) == 0x80\<close>\<close>
  "is_continuation b = (b div 64 = 2)"

definition utf8_code_length :: "nat \<Rightarrow> nat" where
  \<comment> \<open>the decoder's table from lead byte to sequence length, 0 for an illegal lead byte\<close>
  "utf8_code_length b =
     (if b < 0x80 then 1
      else if b < 0xC2 then 0
      else if b < 0xE0 then 2
      else if b < 0xF0 then 3
      else if b < 0xF5 then 4
      else 0)"

function utf8_decode_replace :: "nat list \<Rightarrow> nat list" where
  "utf8_decode_replace [] = []"
| "utf8_decode_replace (b # bs) =
     (if b < 0x80 then b # utf8_decode_replace bs
      else if length bs + 1 < utf8_code_length b then
        \<comment> \<open>unexpected end of data: the lead byte and the continuation bytes after it\<close>
        0xFFFD # utf8_decode_replace (dropWhile is_continuation bs)
      else if utf8_code_length b = 2 then
        (if \<not> is_continuation (bs ! 0) then 0xFFFD # utf8_decode_replace bs
         else (b mod 32 * 64 + bs ! 0 mod 64) # utf8_decode_replace (drop 1 bs))
      else if utf8_code_length b = 3 then
        (if \<not> is_continuation (bs ! 0) \<or> \<not> is_continuation (bs ! 1)
            \<or> (b = 0xE0 \<and> bs ! 0 < 0xA0)
         then 0xFFFD # utf8_decode_replace (if is_continuation (bs ! 0) then drop 1 bs else bs)
         else (b mod 16 * 4096 + bs ! 0 mod 64 * 64 + bs ! 1 mod 64)
                # utf8_decode_replace (drop 2 bs))
      else if utf8_code_length b = 4 then
        (if \<not> is_continuation (bs ! 0) \<or> \<not> is_continuation (bs ! 1)
            \<or> \<not> is_continuation (bs ! 2)
            \<or> (b = 0xF0 \<and> bs ! 0 < 0x90) \<or> (b = 0xF4 \<and> bs ! 0 > 0x8F)
         then 0xFFFD # utf8_decode_replace
                (if is_continuation (bs ! 0)
                 then (if is_continuation (bs ! 1) then drop 2 bs else drop 1 bs)
                 else bs)
         else (b mod 8 * 262144 + bs ! 0 mod 64 * 4096 + bs ! 1 mod 64 * 64 + bs ! 2 mod 64)
                # utf8_decode_replace (drop 3 bs))
      else
        \<comment> \<open>invalid start byte\<close>
        0xFFFD # utf8_decode_replace bs)"
  by pat_completeness auto
termination
  by (relation "measure length") (auto intro: le_imp_less_Suc length_dropWhile_le)

fun decimal :: "nat \<Rightarrow> string" where
  "decimal n =
     (if n < 10 then [char_of (48 + n)]
      else decimal (n div 10) @ [char_of (48 + n mod 10)])"

declare decimal.simps [simp del]

definition xmlcharrefreplace :: "nat \<Rightarrow> string" where
  \<comment> \<open>the numeric character reference \<open>"&#%d;"\<close> of a code point\<close>
  "xmlcharrefreplace c = ''&#'' @ decimal c @ '';''"

definition encode_ascii :: "nat list \<Rightarrow> string" where
  \<comment> \<open>\<open>.encode('ascii', 'xmlcharrefreplace')\<close>\<close>
  "encode_ascii cs = concat (map (\<lambda>c. if c < 128 then [char_of c] else xmlcharrefreplace c) cs)"

definition cleaned :: "string \<Rightarrow> string" where
  "cleaned csv_contents = encode_ascii (utf8_decode_replace (map of_char csv_contents))"

section \<open>The snapshot table\<close>

record snapshot =
  snapshot_id :: "nat option"
  timestamp :: datetime
  hostname :: string
  title :: string
  contents :: string

text \<open>
  The session is modelled by the rows of the \<open>snapshot\<close> table it sees, in insertion
  order. The clock \<open>datetime_now\<close> the database is built with is modelled by the value it
  returns when an operation reads it. Every operation returns its result, or the error it
  raises, together with the table it leaves; an INSERT that the unique constraint refuses
  leaves the table as it was. Hostnames and titles are strings, compared bytewise.
\<close>

type_synonym session = "snapshot list"

datatype error =
    IntegrityError
  | DuplicateSnapshotError datetime string string
  | NoResultFound
  | MultipleResultsFound

definition unique_key :: "snapshot \<Rightarrow> datetime \<times> string \<times> string" where
  \<comment> \<open>\<open>UniqueConstraint('timestamp', 'hostname', 'title')\<close>\<close>
  "unique_key r = (timestamp r, hostname r, title r)"

definition next_snapshot_id :: "session \<Rightarrow> nat" where
  \<comment> \<open>an integer primary key: one more than the largest in the table, 1 in an empty table\<close>
  "next_snapshot_id rows = Suc (fold max (map (\<lambda>r. case snapshot_id r of None \<Rightarrow> 0 | Some i \<Rightarrow> i) rows) 0)"

definition flush :: "snapshot \<Rightarrow> session \<Rightarrow> error + session" where
  \<comment> \<open>\<open>session.add(pending); session.flush()\<close>: the INSERT, refused by the unique constraint\<close>
  "flush pending rows =
     (if unique_key pending \<in> set (map unique_key rows) then Inl IntegrityError
      else Inr (rows @ [pending\<lparr>snapshot_id := Some (next_snapshot_id rows)\<rparr>]))"

definition clean_old_snapshots :: "datetime \<Rightarrow> session \<Rightarrow> session" where
  "clean_old_snapshots datetime_now rows =
     (let oldest_allowed_timestamp = datetime_now - timedelta 14 0
      in filter (\<lambda>r. \<not> timestamp r < oldest_allowed_timestamp) rows)"

definition add_snapshot ::
  "datetime \<Rightarrow> datetime \<Rightarrow> string \<Rightarrow> string \<Rightarrow> string \<Rightarrow> session \<Rightarrow> (error + unit) \<times> session" where
  "add_snapshot datetime_now ts h ti csv_contents rows =
     (let cleaned_csv_contents = cleaned csv_contents in
      case flush \<lparr>snapshot_id = None, timestamp = ts, hostname = h, title = ti,
                  contents = cleaned_csv_contents\<rparr> rows of
        Inl IntegrityError \<Rightarrow> (Inl (DuplicateSnapshotError ts h ti), rows)
      | Inl e \<Rightarrow> (Inl e, rows)
      | Inr rows' \<Rightarrow> (Inr (), clean_old_snapshots datetime_now rows'))"

definition get_all_days :: "session \<Rightarrow> date list" where
  "get_all_days rows = sort (remdups (map date_of (remdups (map timestamp rows))))"

definition in_day :: "date \<Rightarrow> snapshot \<Rightarrow> bool" where
  \<comment> \<open>\<open>.filter(day <= timestamp).filter(timestamp < day + timedelta(days=1))\<close>\<close>
  "in_day day r = (midnight day \<le> timestamp r \<and> timestamp r < midnight (day + 1))"

definition get_timestamps :: "date \<Rightarrow> session \<Rightarrow> datetime list" where
  "get_timestamps day rows =
     (let query = remdups (sort (map timestamp (filter (in_day day) rows)))
      in sort (remdups (map replace_second_microsecond query)))"

definition in_window :: "datetime \<Rightarrow> snapshot \<Rightarrow> bool" where
  \<comment> \<open>\<open>.filter(ts <= timestamp).filter(timestamp < ts + timedelta(seconds=60))\<close>\<close>
  "in_window ts r = (ts \<le> timestamp r \<and> timestamp r < ts + timedelta 0 60)"

definition get_snapshot_info_at_time :: "datetime \<Rightarrow> session \<Rightarrow> (string \<times> string) list" where
  "get_snapshot_info_at_time ts rows =
     map (\<lambda>r. (hostname r, title r))
       (sort_key (\<lambda>r. (hostname r, title r)) (filter (in_window ts) rows))"

definition one :: "'a list \<Rightarrow> error + 'a" where
  \<comment> \<open>\<open>Query.one()\<close>\<close>
  "one xs = (case xs of [] \<Rightarrow> Inl NoResultFound | [x] \<Rightarrow> Inr x | _ \<Rightarrow> Inl MultipleResultsFound)"

definition matching :: "datetime \<Rightarrow> string \<Rightarrow> string \<Rightarrow> session \<Rightarrow> snapshot list" where
  \<comment> \<open>the rows the query of \<open>get_snapshot_contents\<close> selects\<close>
  "matching ts h ti rows =
     filter (\<lambda>r. hostname r = h \<and> title r = ti) (filter (in_window ts) rows)"

definition get_snapshot_contents :: "datetime \<Rightarrow> string \<Rightarrow> string \<Rightarrow> session \<Rightarrow> error + string" where
  "get_snapshot_contents ts h ti rows =
     (case one (matching ts h ti rows) of Inl e \<Rightarrow> Inl e | Inr r \<Rightarrow> Inr (contents r))"

section \<open>Operations on the store and the states they reach\<close>

datatype request =
    AddSnapshot datetime datetime string string string
  | GetAllDays
  | GetTimestamps date
  | GetSnapshotInfoAtTime datetime
  | GetSnapshotContents datetime string string

datatype response =
    Added
  | Days "date list"
  | Timestamps "datetime list"
  | Infos "(string \<times> string) list"
  | Contents string
  | Raised error

fun perform :: "request \<Rightarrow> session \<Rightarrow> response \<times> session" where
  "perform (AddSnapshot datetime_now ts h ti csv_contents) rows =
     (case add_snapshot datetime_now ts h ti csv_contents rows of
        (Inl e, rows') \<Rightarrow> (Raised e, rows')
      | (Inr _, rows') \<Rightarrow> (Added, rows'))"
| "perform GetAllDays rows = (Days (get_all_days rows), rows)"
| "perform (GetTimestamps day) rows = (Timestamps (get_timestamps day rows), rows)"
| "perform (GetSnapshotInfoAtTime ts) rows = (Infos (get_snapshot_info_at_time ts rows), rows)"
| "perform (GetSnapshotContents ts h ti) rows =
     (case get_snapshot_contents ts h ti rows of
        Inl e \<Rightarrow> (Raised e, rows)
      | Inr c \<Rightarrow> (Contents c, rows))"

inductive reachable :: "session \<Rightarrow> bool" where
  empty: "reachable []"
| step: "reachable rows \<Longrightarrow> reachable (snd (perform rq rows))"

section \<open>Basic facts about the operations\<close>

lemma add_snapshot_duplicate:
  "(ts, h, ti) \<in> unique_key ` set rows \<Longrightarrow>
   add_snapshot now ts h ti c rows = (Inl (DuplicateSnapshotError ts h ti), rows)"
  by (simp add: add_snapshot_def flush_def unique_key_def)

lemma add_snapshot_fresh:
  "(ts, h, ti) \<notin> unique_key ` set rows \<Longrightarrow>
   add_snapshot now ts h ti c rows =
     (Inr (), clean_old_snapshots now
        (rows @ [\<lparr>snapshot_id = Some (next_snapshot_id rows), timestamp = ts, hostname = h,
                  title = ti, contents = cleaned c\<rparr>]))"
  by (simp add: add_snapshot_def flush_def unique_key_def)

lemma add_snapshot_Inr_iff:
  "add_snapshot now ts h ti c rows = (Inr (), rows') \<longleftrightarrow>
     (ts, h, ti) \<notin> unique_key ` set rows \<and>
     rows' = clean_old_snapshots now
        (rows @ [\<lparr>snapshot_id = Some (next_snapshot_id rows), timestamp = ts, hostname = h,
                  title = ti, contents = cleaned c\<rparr>])"
  by (cases "(ts, h, ti) \<in> unique_key ` set rows")
     (auto simp: add_snapshot_duplicate add_snapshot_fresh)

lemma snd_add_snapshot:
  "snd (add_snapshot now ts h ti c rows) =
     (if (ts, h, ti) \<in> unique_key ` set rows then rows
      else clean_old_snapshots now
        (rows @ [\<lparr>snapshot_id = Some (next_snapshot_id rows), timestamp = ts, hostname = h,
                  title = ti, contents = cleaned c\<rparr>]))"
  by (simp add: add_snapshot_duplicate add_snapshot_fresh)

lemma clean_old_snapshots_filter:
  "clean_old_snapshots now rows = filter (\<lambda>r. now - timedelta 14 0 \<le> timestamp r) rows"
  by (simp add: clean_old_snapshots_def not_less)

lemma one_simps:
  "one [] = Inl NoResultFound"
  "one [x] = Inr x"
  "one (x # y # zs) = Inl MultipleResultsFound"
  by (simp_all add: one_def)

lemma perform_read_state:
  "snd (perform GetAllDays rows) = rows"
  "snd (perform (GetTimestamps day) rows) = rows"
  "snd (perform (GetSnapshotInfoAtTime ts) rows) = rows"
  "snd (perform (GetSnapshotContents ts h ti) rows) = rows"
  by (simp_all split: sum.split)

lemma perform_add_state:
  "snd (perform (AddSnapshot now ts h ti c) rows) = snd (add_snapshot now ts h ti c rows)"
  by (simp split: prod.split sum.split)

lemma perform_add_duplicate:
  "(ts, h, ti) \<in> unique_key ` set rows \<Longrightarrow>
   perform (AddSnapshot now ts h ti c) rows = (Raised (DuplicateSnapshotError ts h ti), rows)"
  by (simp add: add_snapshot_duplicate)

lemma perform_add_fresh:
  "(ts, h, ti) \<notin> unique_key ` set rows \<Longrightarrow>
   perform (AddSnapshot now ts h ti c) rows = (Added, snd (add_snapshot now ts h ti c rows))"
  by (simp add: add_snapshot_fresh)

declare perform.simps [simp del]

lemma cleaned_emoji: "cleaned [CHR 0xF0, CHR 0x9F, CHR 0x98, CHR 0x88] = ''&#128520;''"
  by (simp add: cleaned_def encode_ascii_def xmlcharrefreplace_def decimal.simps
      utf8_code_length_def is_continuation_def char_of_eq_iff)


lemma utf8_decode_replace_ascii:
  "\<forall>b \<in> set bs. b < 128 \<Longrightarrow> utf8_decode_replace bs = bs"
  by (induction bs) simp_all

lemma encode_ascii_of_char:
  "\<forall>ch \<in> set s. (of_char ch :: nat) < 128 \<Longrightarrow> encode_ascii (map of_char s) = s"
  by (induction s) (simp_all add: encode_ascii_def)

lemma cleaned_ascii:
  assumes "\<forall>ch \<in> set s. (of_char ch :: nat) < 128"
  shows "cleaned s = s"
proof -
  from assms have "utf8_decode_replace (map of_char s) = map of_char s"
    by (intro utf8_decode_replace_ascii) auto
  with assms show ?thesis
    by (simp add: cleaned_def encode_ascii_of_char)
qed

lemma cleaned_hello: "cleaned ''hello world!'' = ''hello world!''"
  by (rule cleaned_ascii) simp

section \<open>Round trip of a write and a read\<close>



section \<open>Duplicate keys\<close>

text \<open>
  C2. When the table already holds a snapshot with the timestamp, hostname and title of
  the call, \<open>add_snapshot\<close> raises \<open>DuplicateSnapshotError\<close> with that key and returns the
  table as it was, whatever the bytes and the clock: nothing is inserted, nothing is
  swept, and every \<open>get_snapshot_contents\<close> answers as before the call.
\<close>

theorem duplicate_rejected:
  assumes "r \<in> set rows" and "timestamp r = ts" and "hostname r = h" and "title r = ti"
  shows "add_snapshot now ts h ti c rows = (Inl (DuplicateSnapshotError ts h ti), rows)
    \<and> get_snapshot_contents ts' h' ti' (snd (add_snapshot now ts h ti c rows))
        = get_snapshot_contents ts' h' ti' rows"
proof -
  from assms have "(ts, h, ti) \<in> unique_key ` set rows"
    by (auto simp: unique_key_def image_iff)
  then show ?thesis
    by (simp add: add_snapshot_duplicate)
qed

theorem duplicate_rejected_witness:
  "add_snapshot (timedelta 100 0) 0 ''myhost'' ''some stuff'' ''a,b''
      [\<lparr>snapshot_id = Some 1, timestamp = 0, hostname = ''myhost'', title = ''some stuff'',
        contents = ''hello world!''\<rparr>]
     = (Inl (DuplicateSnapshotError 0 ''myhost'' ''some stuff''),
        [\<lparr>snapshot_id = Some 1, timestamp = 0, hostname = ''myhost'', title = ''some stuff'',
          contents = ''hello world!''\<rparr>])"
proof -
  let ?r = "\<lparr>snapshot_id = Some 1, timestamp = 0, hostname = ''myhost'', title = ''some stuff'',
        contents = ''hello world!''\<rparr>"
  have "?r \<in> set [?r]" "timestamp ?r = 0" "hostname ?r = ''myhost''" "title ?r = ''some stuff''"
    by simp_all
  from duplicate_rejected [OF this, of "timedelta 100 0" "''a,b''"] show ?thesis
    by (rule conjunct1)
qed

section \<open>Uniqueness of the key\<close>

lemma distinct_keys_step:
  assumes "distinct (map unique_key rows)"
  shows "distinct (map unique_key (snd (perform rq rows)))"
proof (cases rq)
  case (AddSnapshot now ts h ti c)
  show ?thesis
  proof (cases "(ts, h, ti) \<in> unique_key ` set rows")
    case True
    with assms AddSnapshot show ?thesis
      by (simp add: perform_add_state snd_add_snapshot)
  next
    case False
    then have "distinct (map unique_key (rows @ [\<lparr>snapshot_id = Some (next_snapshot_id rows),
        timestamp = ts, hostname = h, title = ti, contents = cleaned c\<rparr>]))"
      using assms by (simp add: unique_key_def)
    then show ?thesis
      using False AddSnapshot
      by (simp only: perform_add_state snd_add_snapshot if_False clean_old_snapshots_filter
          distinct_map_filter)
  qed
qed (simp_all add: assms perform_read_state)

lemma reachable_distinct_keys: "reachable rows \<Longrightarrow> distinct (map unique_key rows)"
  by (induction rule: reachable.induct) (simp_all add: distinct_keys_step)

lemma two_hosts_state:
  "snd (perform (AddSnapshot (timedelta 20 3723) (timedelta 20 3723) ''otherhost'' ''some stuff'' ''a,b'')
     (snd (perform (AddSnapshot (timedelta 20 3723) (timedelta 20 3723) ''myhost'' ''some stuff'' ''a,b'') [])))
   = [\<lparr>snapshot_id = Some 1, timestamp = timedelta 20 3723, hostname = ''myhost'',
        title = ''some stuff'', contents = cleaned ''a,b''\<rparr>,
      \<lparr>snapshot_id = Some 2, timestamp = timedelta 20 3723, hostname = ''otherhost'',
        title = ''some stuff'', contents = cleaned ''a,b''\<rparr>]"
  by (simp add: perform_add_state snd_add_snapshot clean_old_snapshots_filter
      next_snapshot_id_def unique_key_def timedelta_def)

lemma two_hosts_reachable:
  "reachable
     [\<lparr>snapshot_id = Some 1, timestamp = timedelta 20 3723, hostname = ''myhost'',
        title = ''some stuff'', contents = cleaned ''a,b''\<rparr>,
      \<lparr>snapshot_id = Some 2, timestamp = timedelta 20 3723, hostname = ''otherhost'',
        title = ''some stuff'', contents = cleaned ''a,b''\<rparr>]"
  using reachable.step [OF reachable.step [OF reachable.empty]]
  by (simp only: two_hosts_state [symmetric])

text \<open>
  C3. In every table reached from the empty one by any sequence of writes and reads, no
  two snapshots have the same timestamp, hostname and title.
\<close>

theorem uniqueness_invariant:
  "reachable rows \<Longrightarrow> distinct (map unique_key rows)"
  by (induction rule: reachable.induct) (simp_all add: distinct_keys_step)

theorem uniqueness_invariant_witness:
  "reachable
     [\<lparr>snapshot_id = Some 1, timestamp = timedelta 20 3723, hostname = ''myhost'',
        title = ''some stuff'', contents = cleaned ''a,b''\<rparr>,
      \<lparr>snapshot_id = Some 2, timestamp = timedelta 20 3723, hostname = ''otherhost'',
        title = ''some stuff'', contents = cleaned ''a,b''\<rparr>]
   \<and> distinct (map unique_key
     [\<lparr>snapshot_id = Some 1, timestamp = timedelta 20 3723, hostname = ''myhost'',
        title = ''some stuff'', contents = cleaned ''a,b''\<rparr>,
      \<lparr>snapshot_id = Some 2, timestamp = timedelta 20 3723, hostname = ''otherhost'',
        title = ''some stuff'', contents = cleaned ''a,b''\<rparr>])"
  by (rule conjI [OF two_hosts_reachable uniqueness_invariant [OF two_hosts_reachable]])

section \<open>Retention\<close>

lemma century_later_state:
  "add_snapshot (timedelta 120 3723) (timedelta 120 3723) ''myhost'' ''some stuff'' ''a,b''
     [\<lparr>snapshot_id = Some 1, timestamp = timedelta 20 3723, hostname = ''myhost'',
        title = ''some stuff'', contents = cleaned ''a,b''\<rparr>,
      \<lparr>snapshot_id = Some 2, timestamp = timedelta 20 3723, hostname = ''otherhost'',
        title = ''some stuff'', contents = cleaned ''a,b''\<rparr>]
   = (Inr (), [\<lparr>snapshot_id = Some 3, timestamp = timedelta 120 3723, hostname = ''myhost'',
        title = ''some stuff'', contents = cleaned ''a,b''\<rparr>])"
  by (simp add: add_snapshot_fresh clean_old_snapshots_filter
      next_snapshot_id_def unique_key_def timedelta_def)

text \<open>
  C4. After a successful \<open>add_snapshot\<close> no snapshot of the table is strictly older than
  the clock's value minus 14 days, and the snapshots of the table before the call that are
  not strictly older are all still there, unchanged and in their order. The four reads
  return the table they were given, whatever the age of its snapshots.
\<close>

theorem retention_sweep:
  assumes "add_snapshot now ts h ti c rows = (Inr (), rows')"
  shows "(\<forall>r \<in> set rows'. \<not> timestamp r < now - timedelta 14 0)
    \<and> (\<forall>r \<in> set rows. \<not> timestamp r < now - timedelta 14 0 \<longrightarrow> r \<in> set rows')
    \<and> filter (\<lambda>r. r \<in> set rows) rows' = filter (\<lambda>r. \<not> timestamp r < now - timedelta 14 0) rows
    \<and> snd (perform GetAllDays s) = s
    \<and> snd (perform (GetTimestamps day) s) = s
    \<and> snd (perform (GetSnapshotInfoAtTime t) s) = s
    \<and> snd (perform (GetSnapshotContents t h' ti') s) = s"
proof -
  let ?new = "\<lparr>snapshot_id = Some (next_snapshot_id rows), timestamp = ts, hostname = h,
                title = ti, contents = cleaned c\<rparr>"
  from assms have fresh: "(ts, h, ti) \<notin> unique_key ` set rows"
    and rows': "rows' = filter (\<lambda>r. now - timedelta 14 0 \<le> timestamp r) (rows @ [?new])"
    by (simp_all add: add_snapshot_Inr_iff clean_old_snapshots_filter)
  from fresh have new: "?new \<notin> set rows"
    by (auto simp: unique_key_def image_iff)
  have 1: "\<forall>r \<in> set rows'. \<not> timestamp r < now - timedelta 14 0"
    by (auto simp: rows')
  have 2: "\<forall>r \<in> set rows. \<not> timestamp r < now - timedelta 14 0 \<longrightarrow> r \<in> set rows'"
    by (auto simp: rows')
  have "filter (\<lambda>r. r \<in> set rows) (filter (\<lambda>r. now - timedelta 14 0 \<le> timestamp r) rows)
      = filter (\<lambda>r. now - timedelta 14 0 \<le> timestamp r) rows"
    by (rule filter_True) auto
  then have 3: "filter (\<lambda>r. r \<in> set rows) rows' = filter (\<lambda>r. \<not> timestamp r < now - timedelta 14 0) rows"
    using new by (simp add: rows' not_less)
  from 1 2 3 show ?thesis
    by (simp only: perform_read_state simp_thms)
qed

theorem retention_sweep_witness:
  "add_snapshot (timedelta 120 3723) (timedelta 120 3723) ''myhost'' ''some stuff'' ''a,b''
     [\<lparr>snapshot_id = Some 1, timestamp = timedelta 20 3723, hostname = ''myhost'',
        title = ''some stuff'', contents = cleaned ''a,b''\<rparr>,
      \<lparr>snapshot_id = Some 2, timestamp = timedelta 20 3723, hostname = ''otherhost'',
        title = ''some stuff'', contents = cleaned ''a,b''\<rparr>]
   = (Inr (), [\<lparr>snapshot_id = Some 3, timestamp = timedelta 120 3723, hostname = ''myhost'',
        title = ''some stuff'', contents = cleaned ''a,b''\<rparr>])
   \<and> \<not> timestamp \<lparr>snapshot_id = Some 3, timestamp = timedelta 120 3723, hostname = ''myhost'',
        title = ''some stuff'', contents = cleaned ''a,b''\<rparr> < timedelta 120 3723 - timedelta 14 0
   \<and> snd (perform (GetSnapshotContents (timedelta 20 3723) ''myhost'' ''some stuff'')
        [\<lparr>snapshot_id = Some 1, timestamp = timedelta 20 3723, hostname = ''myhost'',
           title = ''some stuff'', contents = cleaned ''a,b''\<rparr>])
       = [\<lparr>snapshot_id = Some 1, timestamp = timedelta 20 3723, hostname = ''myhost'',
           title = ''some stuff'', contents = cleaned ''a,b''\<rparr>]"
  using retention_sweep [OF century_later_state,
      of "[\<lparr>snapshot_id = Some 1, timestamp = timedelta 20 3723, hostname = ''myhost'',
           title = ''some stuff'', contents = cleaned ''a,b''\<rparr>]" 0
         "timedelta 20 3723" "''myhost''" "''some stuff''"]
    century_later_state
  by simp



section \<open>Reading the contents of one snapshot\<close>




section \<open>Several snapshots in one window\<close>

lemma close_pair_state:
  "snd (perform (AddSnapshot (timedelta 0 1) (timedelta 0 1) ''myhost'' ''some stuff'' ''hello world!'')
     (snd (perform (AddSnapshot 0 0 ''myhost'' ''some stuff'' ''hello world!'') [])))
   = [\<lparr>snapshot_id = Some 1, timestamp = 0, hostname = ''myhost'',
        title = ''some stuff'', contents = ''hello world!''\<rparr>,
      \<lparr>snapshot_id = Some 2, timestamp = timedelta 0 1, hostname = ''myhost'',
        title = ''some stuff'', contents = ''hello world!''\<rparr>]"
  by (simp add: perform_add_state snd_add_snapshot clean_old_snapshots_filter
      next_snapshot_id_def unique_key_def timedelta_def cleaned_hello)

lemma close_pair_reachable:
  "reachable
     [\<lparr>snapshot_id = Some 1, timestamp = 0, hostname = ''myhost'',
        title = ''some stuff'', contents = ''hello world!''\<rparr>,
      \<lparr>snapshot_id = Some 2, timestamp = timedelta 0 1, hostname = ''myhost'',
        title = ''some stuff'', contents = ''hello world!''\<rparr>]"
  using reachable.step [OF reachable.step [OF reachable.empty]]
  by (simp only: close_pair_state [symmetric])

lemma distinct_same_key:
  assumes "distinct (map f xs)" and "\<forall>x \<in> set xs. f x = k"
  shows "length xs \<le> 1"
proof (cases xs)
  case (Cons x ys)
  with assms show ?thesis by (cases ys) auto
qed simp

text \<open>
  C6, as the claim states it, fails: two writes with the same hostname and title and
  timestamps one second apart have different keys, so both are stored, and both lie in
  the 60 seconds from the first timestamp. \<open>get_snapshot_contents\<close> there raises
  \<open>MultipleResultsFound\<close>.
\<close>

theorem multiplicity_counterexample:
  "reachable
     [\<lparr>snapshot_id = Some 1, timestamp = 0, hostname = ''myhost'',
        title = ''some stuff'', contents = ''hello world!''\<rparr>,
      \<lparr>snapshot_id = Some 2, timestamp = timedelta 0 1, hostname = ''myhost'',
        title = ''some stuff'', contents = ''hello world!''\<rparr>]
   \<and> distinct (map unique_key
     [\<lparr>snapshot_id = Some 1, timestamp = 0, hostname = ''myhost'',
        title = ''some stuff'', contents = ''hello world!''\<rparr>,
      \<lparr>snapshot_id = Some 2, timestamp = timedelta 0 1, hostname = ''myhost'',
        title = ''some stuff'', contents = ''hello world!''\<rparr>])
   \<and> length (matching 0 ''myhost'' ''some stuff''
     [\<lparr>snapshot_id = Some 1, timestamp = 0, hostname = ''myhost'',
        title = ''some stuff'', contents = ''hello world!''\<rparr>,
      \<lparr>snapshot_id = Some 2, timestamp = timedelta 0 1, hostname = ''myhost'',
        title = ''some stuff'', contents = ''hello world!''\<rparr>]) = 2
   \<and> get_snapshot_contents 0 ''myhost'' ''some stuff''
     [\<lparr>snapshot_id = Some 1, timestamp = 0, hostname = ''myhost'',
        title = ''some stuff'', contents = ''hello world!''\<rparr>,
      \<lparr>snapshot_id = Some 2, timestamp = timedelta 0 1, hostname = ''myhost'',
        title = ''some stuff'', contents = ''hello world!''\<rparr>] = Inl MultipleResultsFound"
  using close_pair_reachable
  by (simp add: unique_key_def matching_def in_window_def timedelta_def
      get_snapshot_contents_def one_simps)

text \<open>
  C6, amended. In every table reached from the empty one, at most one snapshot has a given
  hostname, title and exact timestamp, and the snapshots with a given hostname and title
  whose timestamp lies in the 60 seconds from a given one have pairwise different
  timestamps.
\<close>

theorem window_timestamps_distinct:
  assumes "reachable rows"
  shows "length (filter (\<lambda>r. hostname r = h \<and> title r = ti \<and> timestamp r = ts) rows) \<le> 1
    \<and> distinct (map timestamp
         (filter (\<lambda>r. hostname r = h \<and> title r = ti
                    \<and> ts \<le> timestamp r \<and> timestamp r < ts + timedelta 0 60) rows))"
proof -
  from assms have d: "distinct (map unique_key rows)"
    by (rule reachable_distinct_keys)
  have 1: "length (filter (\<lambda>r. hostname r = h \<and> title r = ti \<and> timestamp r = ts) rows) \<le> 1"
    by (rule distinct_same_key [where f = unique_key and k = "(ts, h, ti)"])
       (auto simp: d distinct_map_filter unique_key_def)
  let ?m = "filter (\<lambda>r. hostname r = h \<and> title r = ti
                    \<and> ts \<le> timestamp r \<and> timestamp r < ts + timedelta 0 60) rows"
  have "distinct (map unique_key ?m)"
    using d by (rule distinct_map_filter)
  moreover have "map unique_key ?m = map (\<lambda>t. (t, h, ti)) (map timestamp ?m)"
    by (simp add: unique_key_def)
  ultimately have "distinct (map timestamp ?m)"
    by (simp only: distinct_map [of "\<lambda>t. (t, h, ti)"])
  with 1 show ?thesis by simp
qed

theorem window_timestamps_distinct_witness:
  "reachable
     [\<lparr>snapshot_id = Some 1, timestamp = 0, hostname = ''myhost'',
        title = ''some stuff'', contents = ''hello world!''\<rparr>,
      \<lparr>snapshot_id = Some 2, timestamp = timedelta 0 1, hostname = ''myhost'',
        title = ''some stuff'', contents = ''hello world!''\<rparr>]
   \<and> length (filter (\<lambda>r. hostname r = ''myhost'' \<and> title r = ''some stuff'' \<and> timestamp r = 0)
     [\<lparr>snapshot_id = Some 1, timestamp = 0, hostname = ''myhost'',
        title = ''some stuff'', contents = ''hello world!''\<rparr>,
      \<lparr>snapshot_id = Some 2, timestamp = timedelta 0 1, hostname = ''myhost'',
        title = ''some stuff'', contents = ''hello world!''\<rparr>]) \<le> 1
   \<and> distinct [0, timedelta 0 1]"
  using close_pair_reachable
    window_timestamps_distinct [OF close_pair_reachable, of "''myhost''" "''some stuff''" 0]
  by (simp add: timedelta_def)

section \<open>Writing a snapshot that is already too old\<close>

lemma late_neighbour_state:
  "snd (perform (AddSnapshot (timedelta 14 30) (timedelta 0 40) ''myhost'' ''some stuff'' ''hello world!'') [])
   = [\<lparr>snapshot_id = Some 1, timestamp = timedelta 0 40, hostname = ''myhost'',
        title = ''some stuff'', contents = ''hello world!''\<rparr>]"
  by (simp add: perform_add_state snd_add_snapshot clean_old_snapshots_filter
      next_snapshot_id_def unique_key_def timedelta_def cleaned_hello)

lemma late_neighbour_reachable:
  "reachable [\<lparr>snapshot_id = Some 1, timestamp = timedelta 0 40, hostname = ''myhost'',
        title = ''some stuff'', contents = ''hello world!''\<rparr>]"
  using reachable.step [OF reachable.empty]
  by (simp only: late_neighbour_state [symmetric])

lemma get_snapshot_contents_NoResultFound_iff:
  "get_snapshot_contents ts h ti rows = Inl NoResultFound \<longleftrightarrow> matching ts h ti rows = []"
proof (cases "matching ts h ti rows")
  case Nil
  then show ?thesis by (simp add: get_snapshot_contents_def one_simps)
next
  case (Cons x xs)
  then show ?thesis by (cases xs) (simp_all add: get_snapshot_contents_def one_simps)
qed

text \<open>
  C10, as the claim states it, fails in its last part. The clock is at day 14, 00:00:30,
  so the horizon is day 0, 00:00:30. The table holds a snapshot of \<open>myhost\<close>,
  \<open>some stuff\<close> at 00:00:40. A write for the same hostname and title at 00:00:20
  succeeds and is swept in the same call; \<open>get_snapshot_contents\<close> for 00:00:20 then does
  not raise \<open>NoResultFound\<close>: the snapshot at 00:00:40 lies in its window, and its contents
  are returned.
\<close>

theorem self_purge_counterexample:
  "reachable [\<lparr>snapshot_id = Some 1, timestamp = timedelta 0 40, hostname = ''myhost'',
        title = ''some stuff'', contents = ''hello world!''\<rparr>]
   \<and> timedelta 0 20 < timedelta 14 30 - timedelta 14 0
   \<and> add_snapshot (timedelta 14 30) (timedelta 0 20) ''myhost'' ''some stuff'' ''a,b''
       [\<lparr>snapshot_id = Some 1, timestamp = timedelta 0 40, hostname = ''myhost'',
          title = ''some stuff'', contents = ''hello world!''\<rparr>]
     = (Inr (), [\<lparr>snapshot_id = Some 1, timestamp = timedelta 0 40, hostname = ''myhost'',
          title = ''some stuff'', contents = ''hello world!''\<rparr>])
   \<and> get_snapshot_contents (timedelta 0 20) ''myhost'' ''some stuff''
       [\<lparr>snapshot_id = Some 1, timestamp = timedelta 0 40, hostname = ''myhost'',
          title = ''some stuff'', contents = ''hello world!''\<rparr>]
     = Inr ''hello world!''"
  using late_neighbour_reachable
  by (simp add: add_snapshot_fresh clean_old_snapshots_filter unique_key_def timedelta_def
      get_snapshot_contents_def matching_def in_window_def one_simps)

text \<open>
  C10, amended. When the timestamp is strictly older than the clock's value minus 14 days
  and no snapshot of the table has the key, \<open>add_snapshot\<close> succeeds and returns the table
  without its snapshots older than the horizon: the written snapshot is not in it, nor is
  any snapshot with its timestamp. \<open>get_snapshot_contents\<close> for the written key raises
  \<open>NoResultFound\<close> exactly when the table before the call has no snapshot with that hostname
  and title whose timestamp lies from the horizon to 60 seconds after the written
  timestamp.
\<close>

theorem self_purge:
  assumes "ts < now - timedelta 14 0"
    and "\<forall>r \<in> set rows. \<not> (timestamp r = ts \<and> hostname r = h \<and> title r = ti)"
  shows "add_snapshot now ts h ti c rows
           = (Inr (), filter (\<lambda>r. \<not> timestamp r < now - timedelta 14 0) rows)
    \<and> (\<forall>r \<in> set (snd (add_snapshot now ts h ti c rows)). timestamp r \<noteq> ts)
    \<and> (get_snapshot_contents ts h ti (snd (add_snapshot now ts h ti c rows)) = Inl NoResultFound
         \<longleftrightarrow> \<not> (\<exists>r \<in> set rows. hostname r = h \<and> title r = ti
                    \<and> now - timedelta 14 0 \<le> timestamp r \<and> timestamp r < ts + timedelta 0 60))"
proof -
  let ?keep = "filter (\<lambda>r. \<not> timestamp r < now - timedelta 14 0) rows"
  from assms(2) have "(ts, h, ti) \<notin> unique_key ` set rows"
    by (auto simp: unique_key_def)
  with assms(1) have a: "add_snapshot now ts h ti c rows = (Inr (), ?keep)"
    by (simp add: add_snapshot_fresh clean_old_snapshots_filter not_less)
  have b: "\<forall>r \<in> set ?keep. timestamp r \<noteq> ts"
    using assms(1) by auto
  have "get_snapshot_contents ts h ti ?keep = Inl NoResultFound \<longleftrightarrow> matching ts h ti ?keep = []"
    by (rule get_snapshot_contents_NoResultFound_iff)
  also have "\<dots> \<longleftrightarrow> \<not> (\<exists>r \<in> set rows. hostname r = h \<and> title r = ti
                    \<and> now - timedelta 14 0 \<le> timestamp r \<and> timestamp r < ts + timedelta 0 60)"
    using assms(1) by (auto simp: matching_def in_window_def filter_empty_conv)
  finally show ?thesis
    using a b by simp
qed


theorem self_purge_witness:
  "add_snapshot (timedelta 14 30) (timedelta 0 20) ''myhost'' ''some stuff'' ''a,b''
       [\<lparr>snapshot_id = Some 1, timestamp = timedelta 0 40, hostname = ''otherhost'',
          title = ''some stuff'', contents = ''hello world!''\<rparr>]
     = (Inr (), [\<lparr>snapshot_id = Some 1, timestamp = timedelta 0 40, hostname = ''otherhost'',
          title = ''some stuff'', contents = ''hello world!''\<rparr>])
   \<and> get_snapshot_contents (timedelta 0 20) ''myhost'' ''some stuff''
       [\<lparr>snapshot_id = Some 1, timestamp = timedelta 0 40, hostname = ''otherhost'',
          title = ''some stuff'', contents = ''hello world!''\<rparr>]
     = Inl NoResultFound"
proof -
  let ?rows = "[\<lparr>snapshot_id = Some 1, timestamp = timedelta 0 40, hostname = ''otherhost'',
          title = ''some stuff'', contents = ''hello world!''\<rparr>]"
  have old: "timedelta 0 20 < timedelta 14 30 - timedelta 14 0"
    by (simp add: timedelta_def)
  have fresh: "\<forall>r \<in> set ?rows. \<not> (timestamp r = timedelta 0 20 \<and> hostname r = ''myhost''
      \<and> title r = ''some stuff'')"
    by simp
  from self_purge [OF old fresh, of "''a,b''"] show ?thesis
    by (auto simp: timedelta_def)
qed

section \<open>The minutes of a day\<close>






section \<open>The snapshots of a window\<close>







section \<open>Stored contents\<close>

lemma decimal_ascii: "\<forall>ch \<in> set (decimal n). (of_char ch :: nat) < 128"
proof (induction n rule: decimal.induct)
  case (1 n)
  show ?case
  proof (cases "n < 10")
    case True
    then show ?thesis by (subst decimal.simps) simp
  next
    case False
    have "(48 + n mod 10) mod 256 < 128"
    proof -
      have "n mod 10 < 10" by simp
      then have "48 + n mod 10 < 128" by linarith
      then show ?thesis by simp
    qed
    with False 1 show ?thesis by (subst decimal.simps) simp
  qed
qed

lemma xmlcharrefreplace_ascii: "\<forall>ch \<in> set (xmlcharrefreplace c). (of_char ch :: nat) < 128"
  using decimal_ascii [of c] by (simp add: xmlcharrefreplace_def)

lemma encode_ascii_ascii: "\<forall>ch \<in> set (encode_ascii cs). (of_char ch :: nat) < 128"
  using xmlcharrefreplace_ascii by (auto simp: encode_ascii_def)

lemma cleaned_is_ascii: "\<forall>ch \<in> set (cleaned s). (of_char ch :: nat) < 128"
  unfolding cleaned_def by (rule encode_ascii_ascii)

lemma rows_after_perform:
  assumes "r' \<in> set (snd (perform rq rows))"
  shows "r' \<in> set rows
    \<or> (\<exists>now ts h ti c. rq = AddSnapshot now ts h ti c \<and> (ts, h, ti) \<notin> unique_key ` set rows
         \<and> r' = \<lparr>snapshot_id = Some (next_snapshot_id rows), timestamp = ts, hostname = h,
                  title = ti, contents = cleaned c\<rparr>)"
proof (cases rq)
  case (AddSnapshot now ts h ti c)
  with assms show ?thesis
    by (auto simp: perform_add_state snd_add_snapshot clean_old_snapshots_filter
        split: if_splits)
qed (use assms in \<open>simp_all add: perform_read_state\<close>)

lemma ascii_step:
  assumes "\<forall>r \<in> set rows. \<forall>ch \<in> set (contents r). (of_char ch :: nat) < 128"
  shows "\<forall>r \<in> set (snd (perform rq rows)). \<forall>ch \<in> set (contents r). (of_char ch :: nat) < 128"
proof
  fix r' assume "r' \<in> set (snd (perform rq rows))"
  from rows_after_perform [OF this] show "\<forall>ch \<in> set (contents r'). (of_char ch :: nat) < 128"
    using assms cleaned_is_ascii by auto
qed

lemma reachable_ascii:
  "reachable rows \<Longrightarrow> \<forall>r \<in> set rows. \<forall>ch \<in> set (contents r). (of_char ch :: nat) < 128"
  by (induction rule: reachable.induct) (simp_all add: ascii_step)

lemma emoji_state:
  "snd (perform (AddSnapshot (timedelta 20 3723) (timedelta 20 3723) ''myhost'' ''some stuff''
        [CHR 0xF0, CHR 0x9F, CHR 0x98, CHR 0x88]) [])
   = [\<lparr>snapshot_id = Some 1, timestamp = timedelta 20 3723, hostname = ''myhost'',
        title = ''some stuff'', contents = ''&#128520;''\<rparr>]"
  by (simp add: perform_add_state snd_add_snapshot clean_old_snapshots_filter
      next_snapshot_id_def timedelta_def cleaned_emoji)

lemma emoji_reachable:
  "reachable [\<lparr>snapshot_id = Some 1, timestamp = timedelta 20 3723, hostname = ''myhost'',
        title = ''some stuff'', contents = ''&#128520;''\<rparr>]"
  using reachable.step [OF reachable.empty]
  by (simp only: emoji_state [symmetric])

text \<open>
  C9. In every table reached from the empty one, the contents of every snapshot consist of
  characters below 128 only. No operation changes a stored snapshot: a snapshot of the
  table after an operation that has the key of a snapshot of the table before it is that
  snapshot, with its contents.
\<close>

theorem ascii_invariant:
  assumes "reachable rows"
  shows "(\<forall>r \<in> set rows. \<forall>ch \<in> set (contents r). (of_char ch :: nat) < 128)
    \<and> (\<forall>r' \<in> set (snd (perform rq rows)). \<forall>r \<in> set rows.
          unique_key r' = unique_key r \<longrightarrow> r' = r)"
proof -
  from assms have d: "distinct (map unique_key rows)"
    by (rule reachable_distinct_keys)
  then have inj: "inj_on unique_key (set rows)"
    by (simp add: distinct_map)
  have "\<forall>r' \<in> set (snd (perform rq rows)). \<forall>r \<in> set rows.
          unique_key r' = unique_key r \<longrightarrow> r' = r"
  proof (intro ballI impI)
    fix r' r
    assume r': "r' \<in> set (snd (perform rq rows))" and r: "r \<in> set rows"
      and k: "unique_key r' = unique_key r"
    from rows_after_perform [OF r'] show "r' = r"
    proof
      assume "r' \<in> set rows"
      with inj r k show ?thesis by (auto dest: inj_onD)
    next
      assume "\<exists>now ts h ti c. rq = AddSnapshot now ts h ti c \<and> (ts, h, ti) \<notin> unique_key ` set rows
         \<and> r' = \<lparr>snapshot_id = Some (next_snapshot_id rows), timestamp = ts, hostname = h,
                  title = ti, contents = cleaned c\<rparr>"
      then obtain ts h ti where "(ts, h, ti) \<notin> unique_key ` set rows"
        and "unique_key r' = (ts, h, ti)"
        by (auto simp: unique_key_def)
      with r k show ?thesis by (metis imageI)
    qed
  qed
  with reachable_ascii [OF assms] show ?thesis by (rule conjI)
qed


theorem ascii_invariant_witness:
  "reachable [\<lparr>snapshot_id = Some 1, timestamp = timedelta 20 3723, hostname = ''myhost'',
        title = ''some stuff'', contents = ''&#128520;''\<rparr>]
   \<and> list_all (\<lambda>ch. (of_char ch :: nat) < 128) ''&#128520;''"
proof -
  let ?r = "\<lparr>snapshot_id = Some 1, timestamp = timedelta 20 3723, hostname = ''myhost'',
        title = ''some stuff'', contents = ''&#128520;''\<rparr>"
  from ascii_invariant [OF emoji_reachable, of GetAllDays]
  have "\<forall>r \<in> set [?r]. \<forall>ch \<in> set (contents r). (of_char ch :: nat) < 128"
    by (rule conjunct1)
  then have "\<forall>ch \<in> set (contents ?r). (of_char ch :: nat) < 128"
    by (rule bspec) simp
  then have "list_all (\<lambda>ch. (of_char ch :: nat) < 128) ''&#128520;''"
    by (simp only: list_all_iff snapshot.simps)
  with emoji_reachable show ?thesis by (rule conjI)
qed

end
